theory Spec2Isabelle
  imports Main "HOL-Library.AList" "HOL-Library.Option_ord" "HOL-Library.Product_Lexorder"
begin

section \<open>Values, documents and the store\<close>

text \<open>
  The classes \<^verbatim>\<open>SaleServices\<close> and \<^verbatim>\<open>ProductServices\<close> are embedded over an
  explicit document store, one call at a time. An ObjectId (and the string that encodes one) is a
  natural number; JavaScript numbers are taken to be integers (quantities, and prices in
  a minor unit), so that arithmetic is exact; a date is the integer a JavaScript
  \<^verbatim>\<open>Date\<close> holds. A field that a document may lack is an \<open>option\<close>, \<open>None\<close>
  being \<^verbatim>\<open>undefined\<close> (or, for a computed number, \<^verbatim>\<open>NaN\<close>).
\<close>

type_synonym objectId = nat

text \<open>
  The values a request payload can hold under a key. \<open>ObjId\<close> is an ObjectId or
  the string that encodes one, \<open>Str\<close> any other string.
\<close>

datatype jsval = Undefined | Null | Bool bool | Num int | Str string | ObjId objectId

text \<open>JavaScript's \<^verbatim>\<open>!!v\<close>.\<close>

fun truthy :: "jsval \<Rightarrow> bool" where
  "truthy Undefined = False"
| "truthy Null = False"
| "truthy (Bool b) = b"
| "truthy (Num n) = (n \<noteq> 0)"
| "truthy (Str s) = (s \<noteq> [])"
| "truthy (ObjId i) = True"

text \<open>A payload object: its keys in order, each with its value.\<close>

type_synonym payload = "(string \<times> jsval) list"

text \<open>\<^verbatim>\<open>payload[key]\<close>: a missing key reads as \<^verbatim>\<open>undefined\<close>.\<close>

definition getKey :: "payload \<Rightarrow> string \<Rightarrow> jsval" where
  "getKey p key = (case map_of p key of None \<Rightarrow> Undefined | Some v \<Rightarrow> v)"

record seller =
  se_id :: objectId
  se_name :: string

text \<open>
  Modelled from the spec: \<^verbatim>\<open>product.model\<close>, \<^verbatim>\<open>sale.model\<close>, \<^verbatim>\<open>purchase.model\<close> and
  \<^verbatim>\<open>seller.model\<close> (the schemas) are missing. The spec's data model gives Product (name,
  price, stock, category/brand/seller references, owning user), Sale (product reference,
  quantity, totalPrice, buyer info, owning user, date), Purchase (derived audit record of
  stock intake) and Seller (name); the remaining fields are the ones the services read
  and write. What a schema requires of a document is a parameter of each create
  operation: a function that returns the message of the validation error, or \<open>None\<close>
  when the document is accepted.
\<close>

record product =
  p_id :: objectId
  p_name :: "string option"
  p_price :: "int option"
  p_stock :: "int option"
  p_category :: "objectId option"
  p_brand :: "objectId option"
  p_seller :: "objectId option"
  p_user :: "objectId option"

record sale =
  s_id :: objectId
  s_product :: objectId
  s_productName :: string
  s_productPrice :: int
  s_quantity :: int
  s_buyerName :: string
  s_date :: "int option"
  s_user :: objectId
  s_totalPrice :: int

record purchase =
  pu_id :: objectId
  pu_user :: objectId
  pu_seller :: "objectId option"
  pu_product :: objectId
  pu_sellerName :: "string option"
  pu_productName :: "string option"
  pu_quantity :: "int option"
  pu_unitPrice :: "int option"
  pu_totalPrice :: "int option"

text \<open>The collections, and the supply of fresh \<^verbatim>\<open>_id\<close>s.\<close>

record db =
  products :: "product list"
  sales :: "sale list"
  purchases :: "purchase list"
  sellers :: "seller list"
  nextId :: objectId

text \<open>\<^verbatim>\<open>mongoose.connection\<close>: its ready state and the replica set option of its client.\<close>

record connection =
  readyState :: nat
  replicaSet :: "string option"

text \<open>\<^verbatim>\<open>new CustomError(status, message)\<close>.\<close>

datatype error = CustomError nat string

fun statusCode :: "error \<Rightarrow> nat" where
  "statusCode (CustomError c m) = c"

fun message :: "error \<Rightarrow> string" where
  "message (CustomError c m) = m"

subsection \<open>Store operations\<close>

text \<open>\<^verbatim>\<open>Model.findById(id)\<close>: the first document with that \<^verbatim>\<open>_id\<close>, or \<^verbatim>\<open>null\<close>.\<close>

definition findById :: "('a \<Rightarrow> objectId) \<Rightarrow> 'a list \<Rightarrow> objectId \<Rightarrow> 'a option" where
  "findById idOf docs i = find (\<lambda>d. idOf d = i) docs"

text \<open>
  The update \<^verbatim>\<open>{ $inc: { stock: n } }\<close> on one document: a missing field is created
  with the value \<open>n\<close>.
\<close>

definition incStock :: "int \<Rightarrow> product \<Rightarrow> product" where
  "incStock n p = p\<lparr>p_stock := Some (case p_stock p of None \<Rightarrow> n | Some s \<Rightarrow> s + n)\<rparr>"

text \<open>Apply an update to the first document with the given \<^verbatim>\<open>_id\<close>.\<close>

fun updateFirst :: "objectId \<Rightarrow> (product \<Rightarrow> product) \<Rightarrow> product list \<Rightarrow> product list" where
  "updateFirst i f [] = []"
| "updateFirst i f (p # ps) = (if p_id p = i then f p # ps else p # updateFirst i f ps)"

text \<open>
  \<^verbatim>\<open>Product.findByIdAndUpdate(id, { $inc: { stock: n } })\<close>: returns the document as
  it was before the update (the library's default), or \<^verbatim>\<open>null\<close>, and the new store.
\<close>

definition findByIdAndUpdate_incStock :: "objectId \<Rightarrow> int \<Rightarrow> db \<Rightarrow> product option \<times> db" where
  "findByIdAndUpdate_incStock i n d =
     (findById p_id (products d) i, d\<lparr>products := updateFirst i (incStock n) (products d)\<rparr>)"

text \<open>
  \<^verbatim>\<open>Sale.create([payload])\<close>: the schema accepts the document or throws; an accepted
  document gets a fresh \<^verbatim>\<open>_id\<close> and is appended. The result is the array of created
  documents.
\<close>

definition Sale_create :: "(sale \<Rightarrow> string option) \<Rightarrow> sale \<Rightarrow> db \<Rightarrow> string + sale list \<times> db" where
  "Sale_create saleSchema doc d =
     (case saleSchema doc of
        Some msg \<Rightarrow> Inl msg
      | None \<Rightarrow>
          (let doc' = doc\<lparr>s_id := nextId d\<rparr>
           in Inr ([doc'], d\<lparr>sales := sales d @ [doc'], nextId := Suc (nextId d)\<rparr>)))"

text \<open>
  The number-to-string conversion of a template literal, on integers: the decimal
  digits up to twenty-one of them, and from \<open>10 ^ 21\<close> on the exponential form, that
  is the first significant digit, after a point the others up to the last that is not
  a zero, and the exponent.
\<close>

fun digits :: "nat \<Rightarrow> string" where
  "digits n = (if n < 10 then [char_of (48 + n)] else digits (n div 10) @ [char_of (48 + n mod 10)])"

definition exponential :: "string \<Rightarrow> string" where
  "exponential ds =
     (case rev (dropWhile (\<lambda>c. c = CHR ''0'') (rev ds)) of
        [] \<Rightarrow> []
      | c # cs \<Rightarrow>
          (if cs = [] then [c] else c # CHR ''.'' # cs) @ ''e+'' @ digits (length ds - 1))"

definition magnitudeToString :: "nat \<Rightarrow> string" where
  "magnitudeToString n = (if length (digits n) \<le> 21 then digits n else exponential (digits n))"

definition numberToString :: "int \<Rightarrow> string" where
  "numberToString n =
     (if n < 0 then CHR ''-'' # magnitudeToString (nat (- n)) else magnitudeToString (nat n))"

text \<open>\<^verbatim>\<open>quantity > product.stock\<close>: a comparison with \<^verbatim>\<open>undefined\<close> is false.\<close>

definition exceedsStock :: "int \<Rightarrow> int option \<Rightarrow> bool" where
  "exceedsStock quantity stock = (case stock of None \<Rightarrow> False | Some s \<Rightarrow> quantity > s)"

text \<open>
  The guard of both create operations: a session, and with it a transaction, is opened
  only when the connection is ready and the client was configured with a replica set.
\<close>

definition useSession :: "connection \<Rightarrow> bool" where
  "useSession conn =
     (readyState conn = 1 \<and> (case replicaSet conn of None \<Rightarrow> False | Some r \<Rightarrow> r \<noteq> []))"

subsection \<open>Sessions and transactions\<close>

text \<open>
  The database as one call sees it: the committed store and, while the transaction
  of the call's session is open, the view of that transaction. Calls run one at a
  time, so nothing else writes while a transaction is open and a commit installs its
  view; an abort drops it.
\<close>

record mongo =
  stored :: db
  working :: "db option"

definition startTransaction :: "mongo \<Rightarrow> mongo" where
  "startTransaction m = m\<lparr>working := Some (stored m)\<rparr>"

definition commitTransaction :: "mongo \<Rightarrow> mongo" where
  "commitTransaction m =
     (case working m of None \<Rightarrow> m | Some w \<Rightarrow> \<lparr>stored = w, working = None\<rparr>)"

definition abortTransaction :: "mongo \<Rightarrow> mongo" where
  "abortTransaction m = m\<lparr>working := None\<rparr>"

text \<open>
  The option \<^verbatim>\<open>{ session }\<close> of a store operation, \<open>session\<close> telling whether
  the session passed is one (and not \<^verbatim>\<open>null\<close>, or no option at all): with a
  session whose transaction is open the operation reads and writes the view of the
  transaction, otherwise the committed store.
\<close>

definition viewOf :: "bool \<Rightarrow> mongo \<Rightarrow> db" where
  "viewOf session m =
     (case working m of None \<Rightarrow> stored m | Some w \<Rightarrow> if session then w else stored m)"

definition putView :: "bool \<Rightarrow> db \<Rightarrow> mongo \<Rightarrow> mongo" where
  "putView session d m =
     (case working m of
        None \<Rightarrow> m\<lparr>stored := d\<rparr>
      | Some w \<Rightarrow> if session then m\<lparr>working := Some d\<rparr> else m\<lparr>stored := d\<rparr>)"

text \<open>An update, and an insert that may throw, run with the option.\<close>

definition withSession :: "bool \<Rightarrow> (db \<Rightarrow> 'r \<times> db) \<Rightarrow> mongo \<Rightarrow> 'r \<times> mongo" where
  "withSession session operation m =
     (case operation (viewOf session m) of (r, d) \<Rightarrow> (r, putView session d m))"

definition createWithSession ::
  "bool \<Rightarrow> (db \<Rightarrow> string + 'r \<times> db) \<Rightarrow> mongo \<Rightarrow> string + 'r \<times> mongo" where
  "createWithSession session operation m =
     (case operation (viewOf session m) of
        Inl msg \<Rightarrow> Inl msg
      | Inr (r, d) \<Rightarrow> Inr (r, putView session d m))"

text \<open>\<^verbatim>\<open>error.message || 'Unknown error'\<close>.\<close>

definition messageOr :: "string \<Rightarrow> string" where
  "messageOr msg = (if msg = [] then ''Unknown error'' else msg)"

section \<open>SaleServices\<close>

text \<open>
  The body of the \<^verbatim>\<open>try\<close> block of \<^verbatim>\<open>SaleServices.create\<close>, \<open>session\<close>
  telling whether a session was opened: start the transaction, decrease the stock,
  insert the sale, commit. Both writes are given the session. A throw is \<open>Inl\<close>
  with the message and the database as the steps so far have left it.
\<close>

definition SaleServices_create_try ::
  "bool \<Rightarrow> (sale \<Rightarrow> string option) \<Rightarrow> product \<Rightarrow> sale \<Rightarrow> mongo \<Rightarrow>
   string \<times> mongo + sale list \<times> mongo" where
  "SaleServices_create_try session saleSchema product payload m =
     (let m0 = (if session then startTransaction m else m);
          m1 = snd (withSession session
                 (findByIdAndUpdate_incStock (p_id product) (- s_quantity payload)) m0)
      in case createWithSession session (Sale_create saleSchema payload) m1 of
           Inl msg \<Rightarrow> Inl (msg, m1)
         | Inr (result, m2) \<Rightarrow>
             if result = [] then Inl (''Failed to create sale'', m2)
             else Inr (result, if session then commitTransaction m2 else m2))"

text \<open>
  \<^verbatim>\<open>SaleServices.create(payload, userId)\<close>, run on the store \<open>d\<close>. The result
  is what the call returns or throws, together with the store it leaves. On a throw
  inside the \<^verbatim>\<open>try\<close> block the transaction is aborted when there is a session.
\<close>

definition SaleServices_create ::
  "connection \<Rightarrow> (sale \<Rightarrow> string option) \<Rightarrow> sale \<Rightarrow> objectId \<Rightarrow> db \<Rightarrow> (error + sale list) \<times> db" where
  "SaleServices_create conn saleSchema payload0 userId d =
     (let productPrice = s_productPrice payload0;
          quantity = s_quantity payload0;
          payload = payload0\<lparr>s_user := userId, s_totalPrice := productPrice * quantity\<rparr>
      in case findById p_id (products d) (s_product payload) of
           None \<Rightarrow> (Inl (CustomError 400 ''Product not found''), d)
         | Some product \<Rightarrow>
             if exceedsStock quantity (p_stock product)
             then (Inl (CustomError 400
                     (numberToString quantity @ '' products are not available in stock!'')), d)
             else
               (let session = useSession conn
                in case SaleServices_create_try session saleSchema product payload
                          \<lparr>stored = d, working = None\<rparr> of
                     Inr (result, m) \<Rightarrow> (Inr result, stored m)
                   | Inl (msg, m) \<Rightarrow>
                       (Inl (CustomError 400 (''Sale create failed: '' @ messageOr msg)),
                        stored (if session then abortTransaction m else m))))"

subsection \<open>Aggregation stages\<close>

text \<open>
  \<^verbatim>\<open>$group\<close>: the documents are read in order; each one is folded into the group
  of its \<^verbatim>\<open>_id\<close>, or opens a new group. \<open>upsert\<close> is that step on the groups
  built so far, \<open>acc\<close> the accumulator (\<^verbatim>\<open>$sum\<close>).
\<close>

fun upsert :: "('v \<Rightarrow> 'v \<Rightarrow> 'v) \<Rightarrow> 'k \<Rightarrow> 'v \<Rightarrow> ('k \<times> 'v) list \<Rightarrow> ('k \<times> 'v) list" where
  "upsert acc k v [] = [(k, v)]"
| "upsert acc k v ((k', a) # gs) =
     (if k' = k then (k', acc a v) # gs else (k', a) # upsert acc k v gs)"

definition group_stage ::
  "('a \<Rightarrow> 'k) \<Rightarrow> ('a \<Rightarrow> 'v) \<Rightarrow> ('v \<Rightarrow> 'v \<Rightarrow> 'v) \<Rightarrow> 'a list \<Rightarrow> ('k \<times> 'v) list" where
  "group_stage key val acc docs = foldl (\<lambda>gs x. upsert acc (key x) (val x) gs) [] docs"




subsection \<open>Reading sales\<close>

text \<open>
  The request query: \<^verbatim>\<open>search\<close>, and in the record's extension whatever
  \<^verbatim>\<open>sortAndPaginatePipeline\<close> reads.
\<close>

record query =
  search :: "string option"

record count_doc =
  c_total :: nat

text \<open>
  \<^verbatim>\<open>SaleServices.readAll(query, userId)\<close>. The regular-expression match of the
  database (pattern, options, subject) and the stages of
  \<^verbatim>\<open>lib/sortAndPaginate.pipeline\<close>, which is missing, are parameters. The result is
  the pair of \<^verbatim>\<open>data\<close> and \<^verbatim>\<open>totalCount\<close>; grouping on the \<^verbatim>\<open>_id\<close> \<^verbatim>\<open>null\<close>
  yields one document with the count, and none when no sale is matched.
\<close>

definition SaleServices_readAll ::
  "(string \<Rightarrow> string \<Rightarrow> string \<Rightarrow> bool) \<Rightarrow> ('a query_scheme \<Rightarrow> sale list \<Rightarrow> sale list) \<Rightarrow>
   'a query_scheme \<Rightarrow> objectId \<Rightarrow> db \<Rightarrow> sale list \<times> count_doc list" where
  "SaleServices_readAll regex sortAndPaginatePipeline query userId d =
     (let search = (case search query of None \<Rightarrow> [] | Some s \<Rightarrow> if s \<noteq> [] then s else []);
          data = sortAndPaginatePipeline query
                   (filter (\<lambda>s. s_user s = userId \<and>
                                 (regex search ''i'' (s_productName s) \<or>
                                  regex search ''i'' (s_buyerName s)))
                      (sales d));
          totalCount = map (\<lambda>g. \<lparr>c_total = snd g\<rparr>)
                         (group_stage (\<lambda>s. ()) (\<lambda>s. 1) (+)
                            (filter (\<lambda>s. s_user s = userId) (sales d)))
      in (data, totalCount))"













section \<open>ProductServices\<close>

text \<open>
  The clean-up loop of \<^verbatim>\<open>ProductServices.create\<close>: for each key the object had on
  entry, the key is deleted when its current value is falsy.
\<close>

definition cleanPayload :: "payload \<Rightarrow> payload" where
  "cleanPayload p =
     fold (\<lambda>key pl. if \<not> truthy (getKey pl key) then AList.delete key pl else pl) (map fst p) p"

text \<open>\<^verbatim>\<open>payload.user = new Types.ObjectId(userId)\<close>, after the clean-up.\<close>

definition preparePayload :: "payload \<Rightarrow> objectId \<Rightarrow> payload" where
  "preparePayload p userId = AList.update ''user'' (ObjId userId) (cleanPayload p)"

definition getStr :: "payload \<Rightarrow> string \<Rightarrow> string option" where
  "getStr p key = (case getKey p key of Str s \<Rightarrow> Some s | _ \<Rightarrow> None)"

definition getNum :: "payload \<Rightarrow> string \<Rightarrow> int option" where
  "getNum p key = (case getKey p key of Num n \<Rightarrow> Some n | _ \<Rightarrow> None)"

definition getId :: "payload \<Rightarrow> string \<Rightarrow> objectId option" where
  "getId p key = (case getKey p key of ObjId i \<Rightarrow> Some i | _ \<Rightarrow> None)"

text \<open>
  Modelled from the spec: \<^verbatim>\<open>product.model\<close> is missing. The document made of a payload
  has the fields of the spec's Product (name, price, stock, category/brand/seller
  references, owning user), each one present exactly when the payload holds a value of
  its kind under that key; no default fills a missing field.
\<close>

definition productOfPayload :: "payload \<Rightarrow> product" where
  "productOfPayload p =
     \<lparr>p_id = 0, p_name = getStr p ''name'', p_price = getNum p ''price'',
      p_stock = getNum p ''stock'', p_category = getId p ''category'',
      p_brand = getId p ''brand'', p_seller = getId p ''seller'', p_user = getId p ''user''\<rparr>"

text \<open>
  What the absent schemas and the library decide: which documents each schema rejects
  (with the message of the error), and the message of the cast error that a query by
  \<^verbatim>\<open>_id\<close> throws for a value that is no ObjectId.
\<close>

record schemas =
  productSchema :: "payload \<Rightarrow> string option"
  purchaseSchema :: "purchase \<Rightarrow> string option"
  castErrorMessage :: "jsval \<Rightarrow> string"

text \<open>\<^verbatim>\<open>Product.create([payload])\<close>.\<close>

definition Product_create ::
  "(payload \<Rightarrow> string option) \<Rightarrow> payload \<Rightarrow> db \<Rightarrow> string + product list \<times> db" where
  "Product_create schema p d =
     (case schema p of
        Some msg \<Rightarrow> Inl msg
      | None \<Rightarrow>
          (let doc = (productOfPayload p)\<lparr>p_id := nextId d\<rparr>
           in Inr ([doc], d\<lparr>products := products d @ [doc], nextId := Suc (nextId d)\<rparr>)))"

text \<open>\<^verbatim>\<open>Purchase.create([doc])\<close>.\<close>

definition Purchase_create ::
  "(purchase \<Rightarrow> string option) \<Rightarrow> purchase \<Rightarrow> db \<Rightarrow> string + purchase list \<times> db" where
  "Purchase_create schema doc d =
     (case schema doc of
        Some msg \<Rightarrow> Inl msg
      | None \<Rightarrow>
          (let doc' = doc\<lparr>pu_id := nextId d\<rparr>
           in Inr ([doc'], d\<lparr>purchases := purchases d @ [doc'], nextId := Suc (nextId d)\<rparr>)))"

text \<open>
  \<^verbatim>\<open>Seller.findById(v)\<close> on a payload value: \<^verbatim>\<open>undefined\<close> and \<^verbatim>\<open>null\<close> find
  nothing, an ObjectId is looked up, anything else makes the query throw.
\<close>

definition Seller_findById :: "(jsval \<Rightarrow> string) \<Rightarrow> jsval \<Rightarrow> seller list \<Rightarrow> string + seller option" where
  "Seller_findById castMsg v docs =
     (case v of
        ObjId i \<Rightarrow> Inr (findById se_id docs i)
      | Undefined \<Rightarrow> Inr None
      | Null \<Rightarrow> Inr None
      | _ \<Rightarrow> Inl (castMsg v))"

text \<open>The product of two numbers that may be \<^verbatim>\<open>undefined\<close>: \<^verbatim>\<open>NaN\<close> unless both are numbers.\<close>

definition jsTimes :: "int option \<Rightarrow> int option \<Rightarrow> int option" where
  "jsTimes a b = (case a of None \<Rightarrow> None | Some x \<Rightarrow> (case b of None \<Rightarrow> None | Some y \<Rightarrow> Some (x * y)))"

text \<open>
  The body of the \<^verbatim>\<open>try\<close> block of \<^verbatim>\<open>ProductServices.create\<close>: start the
  transaction, find the seller (a query without the session), insert the product,
  insert the purchase, commit. Both inserts are given the session. A throw is
  \<open>Inl\<close> with the message and the database as the steps so far have left it.
\<close>

definition ProductServices_create_try ::
  "bool \<Rightarrow> schemas \<Rightarrow> payload \<Rightarrow> objectId \<Rightarrow> mongo \<Rightarrow>
   string \<times> mongo + product list \<times> mongo" where
  "ProductServices_create_try session sch payload userId m =
     (let m0 = (if session then startTransaction m else m)
      in case Seller_findById (castErrorMessage sch) (getKey payload ''seller'')
                (sellers (viewOf False m0)) of
           Inl msg \<Rightarrow> Inl (msg, m0)
         | Inr None \<Rightarrow> Inl (''Seller not found'', m0)
         | Inr (Some seller) \<Rightarrow>
             (case createWithSession session (Product_create (productSchema sch) payload) m0 of
                Inl msg \<Rightarrow> Inl (msg, m0)
              | Inr (product, m1) \<Rightarrow>
                  (case product of
                     [] \<Rightarrow> Inl (''Failed to create product'', m1)
                   | product0 # _ \<Rightarrow>
                       (case createWithSession session
                               (Purchase_create (purchaseSchema sch)
                                  \<lparr>pu_id = 0, pu_user = userId, pu_seller = p_seller product0,
                                   pu_product = p_id product0,
                                   pu_sellerName = Some (se_name seller),
                                   pu_productName = p_name product0,
                                   pu_quantity = p_stock product0,
                                   pu_unitPrice = p_price product0,
                                   pu_totalPrice =
                                     jsTimes (p_stock product0) (p_price product0)\<rparr>) m1 of
                          Inl msg \<Rightarrow> Inl (msg, m1)
                        | Inr (_, m2) \<Rightarrow>
                            Inr (product, if session then commitTransaction m2 else m2)))))"

text \<open>
  \<^verbatim>\<open>ProductServices.create(payload, userId)\<close>, with the result and the store as in
  \<open>SaleServices_create\<close>.
\<close>

definition ProductServices_create ::
  "connection \<Rightarrow> schemas \<Rightarrow> payload \<Rightarrow> objectId \<Rightarrow> db \<Rightarrow> (error + product list) \<times> db" where
  "ProductServices_create conn sch payload0 userId d =
     (let payload = preparePayload payload0 userId;
          session = useSession conn
      in case ProductServices_create_try session sch payload userId
                \<lparr>stored = d, working = None\<rparr> of
           Inr (product, m) \<Rightarrow> (Inr product, stored m)
         | Inl (msg, m) \<Rightarrow>
             (Inl (CustomError 400 (''Product create failed: '' @ messageOr msg)),
              stored (if session then abortTransaction m else m)))"

text \<open>
  \<^verbatim>\<open>ProductServices.bulkDelete(payload)\<close>: \<^verbatim>\<open>deleteMany\<close> with the filter
  \<^verbatim>\<open>{ _id: { $in: data } }\<close>; the result is the number of deleted documents.
\<close>

definition ProductServices_bulkDelete :: "objectId list \<Rightarrow> db \<Rightarrow> nat \<times> db" where
  "ProductServices_bulkDelete payload d =
     (let data = map (\<lambda>item. item) payload
      in (length (filter (\<lambda>p. p_id p \<in> set data) (products d)),
          d\<lparr>products := filter (\<lambda>p. p_id p \<notin> set data) (products d)\<rparr>))"

text \<open>
  \<^verbatim>\<open>ProductServices.read(id, userId)\<close>, a read operation: \<^verbatim>\<open>_isExists\<close> of the
  missing base class is left out, the query filters on the owning user.
\<close>

definition ProductServices_read :: "objectId \<Rightarrow> objectId \<Rightarrow> db \<Rightarrow> product option" where
  "ProductServices_read i userId d = find (\<lambda>p. p_user p = Some userId \<and> p_id p = i) (products d)"

text \<open>The payload of \<^verbatim>\<open>addToStock\<close>: \<^verbatim>\<open>Pick<IProduct, 'seller' | 'stock'>\<close>.\<close>

record stock_payload =
  sp_seller :: objectId
  sp_stock :: int

text \<open>
  The body of the \<^verbatim>\<open>try\<close> block of \<^verbatim>\<open>ProductServices.addToStock\<close>, whose
  session is always opened: start the transaction, find the seller (without the
  session), update the stock and insert the purchase (both with the session), commit.
  \<open>product\<close> is what \<^verbatim>\<open>findByIdAndUpdate\<close> returns; reading a field of
  \<^verbatim>\<open>null\<close> throws. \<^verbatim>\<open>Number\<close> is the identity on a number and gives
  \<^verbatim>\<open>NaN\<close> on \<^verbatim>\<open>undefined\<close>.
\<close>

definition ProductServices_addToStock_try ::
  "(purchase \<Rightarrow> string option) \<Rightarrow> objectId \<Rightarrow> stock_payload \<Rightarrow> objectId \<Rightarrow> mongo \<Rightarrow>
   mongo + product \<times> mongo" where
  "ProductServices_addToStock_try schema i payload userId m =
     (let m0 = startTransaction m;
          seller = findById se_id (sellers (viewOf False m0)) (sp_seller payload);
          (product, m1) = withSession True (findByIdAndUpdate_incStock i (sp_stock payload)) m0
      in case product of
           None \<Rightarrow> Inl m1
         | Some product \<Rightarrow>
             (case createWithSession True
                     (Purchase_create schema
                        \<lparr>pu_id = 0, pu_user = userId, pu_seller = p_seller product,
                         pu_product = p_id product, pu_sellerName = map_option se_name seller,
                         pu_productName = p_name product, pu_quantity = p_stock product,
                         pu_unitPrice = p_price product,
                         pu_totalPrice = jsTimes (p_stock product) (p_price product)\<rparr>) m1 of
                Inl msg \<Rightarrow> Inl m1
              | Inr (_, m2) \<Rightarrow> Inr (product, commitTransaction m2)))"

text \<open>
  \<^verbatim>\<open>ProductServices.addToStock(id, payload, userId)\<close>: a throw aborts the
  transaction.
\<close>

definition ProductServices_addToStock ::
  "(purchase \<Rightarrow> string option) \<Rightarrow> objectId \<Rightarrow> stock_payload \<Rightarrow> objectId \<Rightarrow> db \<Rightarrow> (error + product) \<times> db" where
  "ProductServices_addToStock schema i payload userId d =
     (case ProductServices_addToStock_try schema i payload userId \<lparr>stored = d, working = None\<rparr> of
        Inr (product, m) \<Rightarrow> (Inr product, stored m)
      | Inl m \<Rightarrow> (Inl (CustomError 400 ''Product create failed''), stored (abortTransaction m)))"

section \<open>Sample data and the rollup specification\<close>

text \<open>A small store, two deployments, payloads and schemas on which the operations are run.\<close>

definition rose :: product where
  "rose = \<lparr>p_id = 1, p_name = Some ''Rose'', p_price = Some 5, p_stock = Some 10,
           p_category = None, p_brand = None, p_seller = Some 3, p_user = Some 7\<rparr>"

definition tulip :: product where
  "tulip = \<lparr>p_id = 2, p_name = Some ''Tulip'', p_price = Some 4, p_stock = Some 6,
            p_category = None, p_brand = None, p_seller = Some 3, p_user = Some 8\<rparr>"

definition shop :: db where
  "shop = \<lparr>products = [rose, tulip], sales = [], purchases = [],
           sellers = [\<lparr>se_id = 3, se_name = ''Flora''\<rparr>], nextId = 20\<rparr>"

definition lily :: product where
  "lily = \<lparr>p_id = 20, p_name = Some ''Lily'', p_price = Some 5, p_stock = None,
           p_category = None, p_brand = None, p_seller = Some 3, p_user = Some 7\<rparr>"


definition standalone :: connection where
  "standalone = \<lparr>readyState = 1, replicaSet = None\<rparr>"

definition replicated :: connection where
  "replicated = \<lparr>readyState = 1, replicaSet = Some ''rs0''\<rparr>"

definition saleOf :: "int \<Rightarrow> string \<Rightarrow> sale" where
  "saleOf quantity buyer =
     \<lparr>s_id = 0, s_product = 1, s_productName = ''Rose'', s_productPrice = 5,
      s_quantity = quantity, s_buyerName = buyer, s_date = Some 100, s_user = 0,
      s_totalPrice = 0\<rparr>"

definition anySale :: "sale \<Rightarrow> string option" where
  "anySale s = None"

definition namedBuyer :: "sale \<Rightarrow> string option" where
  "namedBuyer s = (if s_buyerName s = [] then Some ''buyerName is required'' else None)"

definition flower :: "int \<Rightarrow> int \<Rightarrow> payload" where
  "flower price stock =
     [(''name'', Str ''Lily''), (''price'', Num price), (''stock'', Num stock),
      (''seller'', ObjId 3), (''description'', Str [])]"

definition numericTotal :: "purchase \<Rightarrow> string option" where
  "numericTotal pu = (if pu_totalPrice pu = None then Some ''totalPrice is not a number'' else None)"

definition castFailed :: "jsval \<Rightarrow> string" where
  "castFailed v = ''Cast to ObjectId failed''"

definition noPayloadCheck :: "payload \<Rightarrow> string option" where
  "noPayloadCheck p = None"

definition noPurchaseCheck :: "purchase \<Rightarrow> string option" where
  "noPurchaseCheck pu = None"


definition strictSchemas :: schemas where
  "strictSchemas = \<lparr>productSchema = noPayloadCheck, purchaseSchema = numericTotal,
             castErrorMessage = castFailed\<rparr>"






definition lowerCase :: "char \<Rightarrow> char" where
  "lowerCase c =
     (let n = (of_char c :: nat) in if 65 \<le> n \<and> n \<le> 90 then char_of (n + 32) else c)"

fun occursIn :: "string \<Rightarrow> string \<Rightarrow> bool" where
  "occursIn p [] = (p = [])"
| "occursIn p (c # cs) = (take (length p) (c # cs) = p \<or> occursIn p cs)"

definition literalMatch :: "string \<Rightarrow> string \<Rightarrow> string \<Rightarrow> bool" where
  "literalMatch pattern options subject =
     (if CHR ''i'' \<in> set options then occursIn (map lowerCase pattern) (map lowerCase subject)
      else occursIn pattern subject)"

definition firstPage :: "query \<Rightarrow> sale list \<Rightarrow> sale list" where
  "firstPage q docs = take 10 docs"

definition sold :: "objectId \<Rightarrow> string \<Rightarrow> string \<Rightarrow> int \<Rightarrow> int \<Rightarrow> int option \<Rightarrow> sale" where
  "sold userId name buyer quantity price day =
     \<lparr>s_id = 0, s_product = 1, s_productName = name, s_productPrice = price,
      s_quantity = quantity, s_buyerName = buyer, s_date = day, s_user = userId,
      s_totalPrice = price * quantity\<rparr>"

definition ledger :: db where
  "ledger = shop\<lparr>sales :=
     [sold 7 ''Rose'' ''Ann'' 2 5 (Some 400), sold 7 ''Tulip'' ''Bob'' 1 4 (Some 3),
      sold 8 ''Rose'' ''Cy'' 9 5 (Some 3), sold 7 ''Rose'' ''Dee'' 3 5 (Some 5),
      sold 7 ''Iris'' ''Eve'' 6 2 None]\<rparr>"

section \<open>Properties of the store operations\<close>

lemmas session_defs = startTransaction_def commitTransaction_def abortTransaction_def
  viewOf_def putView_def withSession_def createWithSession_def

lemma p_id_incStock: "p_id (incStock n p) = p_id p"
  by (simp add: incStock_def)

lemma findById_updateFirst:
  assumes "\<And>p. p_id (f p) = p_id p"
  shows "findById p_id (updateFirst i f ps) j =
     (if j = i then map_option f (findById p_id ps i) else findById p_id ps j)"
  using assms by (induction ps) (auto simp: findById_def)

lemma findById_Some_id: "findById p_id ps i = Some p \<Longrightarrow> p_id p = i"
  by (induction ps) (auto simp: findById_def split: if_splits)



text \<open>
  The \<^verbatim>\<open>try\<close> block of a sale, started outside any transaction. On success the
  committed store holds both writes. On a throw it holds neither when a session was
  opened, the writes having gone to the view of the transaction, and it holds the
  decrement when there was no session.
\<close>

lemma SaleServices_create_try_Inr:
  assumes "SaleServices_create_try session saleSchema product payload
             \<lparr>stored = d, working = None\<rparr> = Inr (result, m)"
  shows "result = [payload\<lparr>s_id := nextId d\<rparr>] \<and>
         stored m = d\<lparr>products := updateFirst (p_id product) (incStock (- s_quantity payload)) (products d),
                      sales := sales d @ result, nextId := Suc (nextId d)\<rparr>"
  using assms
  by (cases session)
    (auto simp: SaleServices_create_try_def Sale_create_def findByIdAndUpdate_incStock_def
      session_defs Let_def split: option.splits if_splits sum.splits prod.splits)

lemma SaleServices_create_try_Inl:
  assumes "SaleServices_create_try session saleSchema product payload
             \<lparr>stored = d, working = None\<rparr> = Inl (msg, m)"
  shows "stored (if session then abortTransaction m else m) =
           (if session then d
            else d\<lparr>products := updateFirst (p_id product) (incStock (- s_quantity payload)) (products d)\<rparr>)"
  using assms
  by (cases session)
    (auto simp: SaleServices_create_try_def Sale_create_def findByIdAndUpdate_incStock_def
      session_defs Let_def split: option.splits if_splits sum.splits prod.splits)

lemma SaleServices_create_Inr:
  assumes "SaleServices_create conn saleSchema payload userId d = (Inr result, d')"
  shows "\<exists>product. findById p_id (products d) (s_product payload) = Some product \<and>
           \<not> exceedsStock (s_quantity payload) (p_stock product) \<and>
           result = [payload\<lparr>s_user := userId, s_totalPrice := s_productPrice payload * s_quantity payload, s_id := nextId d\<rparr>] \<and>
           d' = d\<lparr>products := updateFirst (p_id product) (incStock (- s_quantity payload)) (products d),
                  sales := sales d @ result, nextId := Suc (nextId d)\<rparr>"
  using assms
  by (auto simp: SaleServices_create_def Let_def dest!: SaleServices_create_try_Inr
      split: option.splits if_splits sum.splits prod.splits)


lemma SaleServices_create_not_found:
  assumes "findById p_id (products d) (s_product payload) = None"
  shows "SaleServices_create conn saleSchema payload userId d = (Inl (CustomError 400 ''Product not found''), d)"
  using assms by (simp add: SaleServices_create_def)

lemmas sale_run = SaleServices_create_def SaleServices_create_try_def Sale_create_def
  findByIdAndUpdate_incStock_def session_defs Let_def findById_def exceedsStock_def
  incStock_def useSession_def messageOr_def

lemmas product_run = ProductServices_create_def ProductServices_create_try_def
  Seller_findById_def Product_create_def Purchase_create_def productOfPayload_def
  getStr_def getNum_def getId_def getKey_def jsTimes_def session_defs Let_def findById_def
  useSession_def messageOr_def

section \<open>Sale creation\<close>




text \<open>
  Claim C3. A successful \<open>SaleServices_create\<close> on an existing product whose stock
  covers the quantity returns one sale, appended to the sales, whose \<open>totalPrice\<close> is
  \<open>productPrice * quantity\<close> and whose user is the caller; the referenced product is
  found afterwards with its stock lowered by exactly the quantity, and every other
  lookup is as before.
\<close>

theorem sale_create_decrements_and_inserts:
  assumes found: "findById p_id (products d) (s_product payload) = Some product"
    and stock: "p_stock product = Some stock"
    and le: "s_quantity payload \<le> stock"
    and ok: "SaleServices_create conn saleSchema payload userId d = (Inr result, d')"
  shows "\<exists>sale. result = [sale] \<and> sales d' = sales d @ [sale] \<and>
           s_totalPrice sale = s_productPrice payload * s_quantity payload \<and>
           s_user sale = userId \<and> s_product sale = s_product payload \<and>
           s_quantity sale = s_quantity payload \<and>
           findById p_id (products d') (s_product payload) =
             Some (product\<lparr>p_stock := Some (stock - s_quantity payload)\<rparr>) \<and>
           (\<forall>i. i \<noteq> s_product payload \<longrightarrow>
              findById p_id (products d') i = findById p_id (products d) i)"
proof -
  let ?q = "s_quantity payload"
  let ?sale = "payload\<lparr>s_user := userId, s_totalPrice := s_productPrice payload * ?q,
                 s_id := nextId d\<rparr>"
  from SaleServices_create_Inr [OF ok] found
  have res: "result = [?sale]"
    and d': "d' = d\<lparr>products := updateFirst (p_id product) (incStock (- ?q)) (products d),
                  sales := sales d @ result, nextId := Suc (nextId d)\<rparr>"
    by auto
  have pid: "p_id product = s_product payload"
    using found by (rule findById_Some_id)
  have upd: "findById p_id (products d') i =
      (if i = s_product payload then map_option (incStock (- ?q)) (findById p_id (products d) (s_product payload))
       else findById p_id (products d) i)" for i
    unfolding d' pid by (simp add: findById_updateFirst p_id_incStock)
  have "incStock (- ?q) product = product\<lparr>p_stock := Some (stock - ?q)\<rparr>"
    by (simp add: incStock_def stock)
  with upd found have "findById p_id (products d') (s_product payload) =
      Some (product\<lparr>p_stock := Some (stock - ?q)\<rparr>)"
    by simp
  moreover have "\<forall>i. i \<noteq> s_product payload \<longrightarrow>
      findById p_id (products d') i = findById p_id (products d) i"
    using upd by simp
  moreover have "sales d' = sales d @ [?sale]"
    unfolding d' by (simp add: res)
  ultimately show ?thesis
    using res by simp
qed

theorem sale_create_decrements_and_inserts_witness:
  "findById p_id (products shop) (s_product (saleOf 4 ''Ann'')) = Some rose \<and>
   p_stock rose = Some 10 \<and> s_quantity (saleOf 4 ''Ann'') \<le> 10 \<and>
   SaleServices_create standalone anySale (saleOf 4 ''Ann'') 7 shop =
     (Inr [(saleOf 4 ''Ann'')\<lparr>s_user := 7, s_totalPrice := 20, s_id := 20\<rparr>],
      shop\<lparr>products := [rose\<lparr>p_stock := Some 6\<rparr>, tulip],
           sales := [(saleOf 4 ''Ann'')\<lparr>s_user := 7, s_totalPrice := 20, s_id := 20\<rparr>],
           nextId := 21\<rparr>) \<and>
   findById p_id [rose\<lparr>p_stock := Some 6\<rparr>, tulip] 1 = Some (rose\<lparr>p_stock := Some (10 - 4)\<rparr>) \<and>
   findById p_id [rose\<lparr>p_stock := Some 6\<rparr>, tulip] 2 = findById p_id (products shop) 2"
proof -
  have f: "findById p_id (products shop) (s_product (saleOf 4 ''Ann'')) = Some rose"
    by (simp add: findById_def shop_def saleOf_def rose_def)
  have s: "p_stock rose = Some 10"
    by (simp add: rose_def)
  have l: "s_quantity (saleOf 4 ''Ann'') \<le> 10"
    by (simp add: saleOf_def)
  have r: "SaleServices_create standalone anySale (saleOf 4 ''Ann'') 7 shop =
     (Inr [(saleOf 4 ''Ann'')\<lparr>s_user := 7, s_totalPrice := 20, s_id := 20\<rparr>],
      shop\<lparr>products := [rose\<lparr>p_stock := Some 6\<rparr>, tulip],
           sales := [(saleOf 4 ''Ann'')\<lparr>s_user := 7, s_totalPrice := 20, s_id := 20\<rparr>],
           nextId := 21\<rparr>)"
    by (simp add: sale_run shop_def saleOf_def rose_def tulip_def anySale_def replicated_def
      standalone_def)
  from sale_create_decrements_and_inserts [OF f s l r]
  show ?thesis using f s l r
    by (simp add: saleOf_def shop_def)
qed

text \<open>
  Claim C7. \<open>SaleServices_create\<close> throws the 400 error \<open>Product not found\<close>, and
  changes nothing, when the referenced product does not exist; a successful call stores
  one sale whose user is the caller and whose product is in the store, before and
  after the call.
\<close>

theorem sale_references_product_and_user:
  "(findById p_id (products d) (s_product payload) = None \<longrightarrow>
      SaleServices_create conn saleSchema payload userId d =
        (Inl (CustomError 400 ''Product not found''), d))
   \<and> (\<forall>result d'. SaleServices_create conn saleSchema payload userId d = (Inr result, d') \<longrightarrow>
        (\<exists>sale. result = [sale] \<and> sales d' = sales d @ [sale] \<and> s_user sale = userId \<and>
           findById p_id (products d) (s_product sale) \<noteq> None \<and>
           findById p_id (products d') (s_product sale) \<noteq> None))"
proof (intro conjI allI impI)
  assume "findById p_id (products d) (s_product payload) = None"
  then show "SaleServices_create conn saleSchema payload userId d =
      (Inl (CustomError 400 ''Product not found''), d)"
    by (rule SaleServices_create_not_found)
next
  fix result d'
  assume ok: "SaleServices_create conn saleSchema payload userId d = (Inr result, d')"
  let ?sale = "payload\<lparr>s_user := userId,
      s_totalPrice := s_productPrice payload * s_quantity payload, s_id := nextId d\<rparr>"
  from SaleServices_create_Inr [OF ok] obtain product where
    found: "findById p_id (products d) (s_product payload) = Some product"
    and res: "result = [?sale]"
    and d': "d' = d\<lparr>products := updateFirst (p_id product) (incStock (- s_quantity payload)) (products d),
                  sales := sales d @ result, nextId := Suc (nextId d)\<rparr>"
    by auto
  have pid: "p_id product = s_product payload"
    using found by (rule findById_Some_id)
  have "findById p_id (products d') (s_product payload) \<noteq> None"
    unfolding d' pid using found by (simp add: findById_updateFirst p_id_incStock)
  with found res d'
  show "\<exists>sale. result = [sale] \<and> sales d' = sales d @ [sale] \<and> s_user sale = userId \<and>
           findById p_id (products d) (s_product sale) \<noteq> None \<and>
           findById p_id (products d') (s_product sale) \<noteq> None"
    by simp
qed

theorem sale_references_product_and_user_witness:
  "findById p_id (products shop) (s_product ((saleOf 4 ''Ann'')\<lparr>s_product := 9\<rparr>)) = None \<and>
   SaleServices_create replicated anySale ((saleOf 4 ''Ann'')\<lparr>s_product := 9\<rparr>) 7 shop =
     (Inl (CustomError 400 ''Product not found''), shop) \<and>
   (\<exists>result d'. SaleServices_create replicated anySale (saleOf 4 ''Ann'') 7 shop = (Inr result, d') \<and>
      (\<exists>sale. result = [sale] \<and> sales d' = sales shop @ [sale] \<and> s_user sale = 7 \<and>
           findById p_id (products shop) (s_product sale) \<noteq> None \<and>
           findById p_id (products d') (s_product sale) \<noteq> None))"
proof -
  have n: "findById p_id (products shop) (s_product ((saleOf 4 ''Ann'')\<lparr>s_product := 9\<rparr>)) = None"
    by (simp add: findById_def shop_def saleOf_def rose_def tulip_def)
  have "\<exists>result d'. SaleServices_create replicated anySale (saleOf 4 ''Ann'') 7 shop = (Inr result, d')"
    by (simp add: sale_run shop_def saleOf_def rose_def tulip_def anySale_def replicated_def
      standalone_def)
  then obtain result d' where
    r: "SaleServices_create replicated anySale (saleOf 4 ''Ann'') 7 shop = (Inr result, d')"
    by blast
  from sale_references_product_and_user [of shop "(saleOf 4 ''Ann'')\<lparr>s_product := 9\<rparr>" replicated anySale 7] n
  have a: "SaleServices_create replicated anySale ((saleOf 4 ''Ann'')\<lparr>s_product := 9\<rparr>) 7 shop =
     (Inl (CustomError 400 ''Product not found''), shop)"
    by blast
  from sale_references_product_and_user [of shop "saleOf 4 ''Ann''" replicated anySale 7] r
  have b: "\<exists>sale. result = [sale] \<and> sales d' = sales shop @ [sale] \<and> s_user sale = 7 \<and>
           findById p_id (products shop) (s_product sale) \<noteq> None \<and>
           findById p_id (products d') (s_product sale) \<noteq> None"
    by blast
  from n a r b show ?thesis by blast
qed

section \<open>Atomicity of the transactional creates\<close>

text \<open>
  The \<^verbatim>\<open>try\<close> block of a product creation, started outside any transaction: what
  the committed store holds on success and after the handling of a throw.
\<close>

lemma ProductServices_create_try_Inr:
  assumes "ProductServices_create_try session sch payload userId
             \<lparr>stored = d, working = None\<rparr> = Inr (result, m)"
  shows "\<exists>i seller product pur.
           getKey payload ''seller'' = ObjId i \<and>
           findById se_id (sellers d) i = Some seller \<and>
           product = (productOfPayload payload)\<lparr>p_id := nextId d\<rparr> \<and>
           pur = \<lparr>pu_id = Suc (nextId d), pu_user = userId, pu_seller = p_seller product,
                  pu_product = p_id product, pu_sellerName = Some (se_name seller),
                  pu_productName = p_name product, pu_quantity = p_stock product,
                  pu_unitPrice = p_price product,
                  pu_totalPrice = jsTimes (p_stock product) (p_price product)\<rparr> \<and>
           result = [product] \<and>
           stored m = d\<lparr>products := products d @ [product], purchases := purchases d @ [pur],
                        nextId := Suc (Suc (nextId d))\<rparr>"
  using assms
  by (cases session)
    (auto simp: ProductServices_create_try_def Seller_findById_def Product_create_def
      Purchase_create_def session_defs Let_def
      split: option.splits if_splits sum.splits prod.splits jsval.splits list.splits)

lemma ProductServices_create_try_Inl:
  assumes "ProductServices_create_try session sch payload userId
             \<lparr>stored = d, working = None\<rparr> = Inl (msg, m)"
  shows "stored (if session then abortTransaction m else m) = d \<or>
         (\<not> session \<and>
          stored m = d\<lparr>products := products d @ [(productOfPayload payload)\<lparr>p_id := nextId d\<rparr>],
                       nextId := Suc (nextId d)\<rparr>)"
  using assms
  by (cases session)
    (auto simp: ProductServices_create_try_def Seller_findById_def Product_create_def
      Purchase_create_def session_defs Let_def
      split: option.splits if_splits sum.splits prod.splits jsval.splits list.splits)

lemma SaleServices_create_Inl:
  assumes "SaleServices_create conn saleSchema payload userId d = (Inl e, d')"
    and "useSession conn"
  shows "d' = d"
  using assms
  by (auto simp: SaleServices_create_def Let_def dest!: SaleServices_create_try_Inl
      split: option.splits if_splits sum.splits prod.splits)

lemma ProductServices_create_Inl:
  assumes "ProductServices_create conn sch payload userId d = (Inl e, d')"
    and "useSession conn"
  shows "d' = d"
  using assms
  by (auto simp: ProductServices_create_def Let_def dest!: ProductServices_create_try_Inl
      split: option.splits if_splits sum.splits prod.splits)

lemma flower_prepared:
  "preparePayload (flower 5 0) 7 =
     [(''name'', Str ''Lily''), (''price'', Num 5), (''seller'', ObjId 3), (''user'', ObjId 7)]"
  by (simp add: preparePayload_def cleanPayload_def flower_def getKey_def)

text \<open>
  Claim C2, as stated, fails: on a deployment without a replica set no session is
  opened, and a sale whose insert is rejected leaves the stock of the product
  decremented although the call throws and no sale is stored.
\<close>

theorem create_not_atomic_counterexample:
  "\<not> useSession standalone \<and>
   SaleServices_create standalone namedBuyer (saleOf 4 []) 7 shop =
     (Inl (CustomError 400 ''Sale create failed: buyerName is required''),
      shop\<lparr>products := [rose\<lparr>p_stock := Some 6\<rparr>, tulip]\<rparr>) \<and>
   sales (shop\<lparr>products := [rose\<lparr>p_stock := Some 6\<rparr>, tulip]\<rparr>) = sales shop \<and>
   shop\<lparr>products := [rose\<lparr>p_stock := Some 6\<rparr>, tulip]\<rparr> \<noteq> shop"
  by (simp add: sale_run shop_def saleOf_def rose_def tulip_def namedBuyer_def standalone_def)

text \<open>
  Claim C2, amended. When the deployment supports transactions, that is when the
  connection is ready and a replica set is configured, \<open>SaleServices_create\<close> and
  \<open>ProductServices_create\<close> are atomic: every write of the call is given the session
  and so goes to the view of the transaction, which the abort drops; a call that fails
  throws and leaves the store as it was at the start of the call.
\<close>

theorem create_atomic_with_session:
  assumes "useSession conn"
  shows "(\<forall>e d'. SaleServices_create conn saleSchema payload userId d = (Inl e, d') \<longrightarrow> d' = d)
       \<and> (\<forall>e d'. ProductServices_create conn sch ppayload userId d = (Inl e, d') \<longrightarrow> d' = d)"
  using assms SaleServices_create_Inl [of conn saleSchema payload userId d]
    ProductServices_create_Inl [of conn sch ppayload userId d]
  by blast

theorem create_atomic_with_session_witness:
  "useSession replicated \<and>
   SaleServices_create replicated namedBuyer (saleOf 4 []) 7 shop =
     (Inl (CustomError 400 ''Sale create failed: buyerName is required''), shop) \<and>
   ProductServices_create replicated strictSchemas (flower 5 0) 7 shop =
     (Inl (CustomError 400 ''Product create failed: totalPrice is not a number''), shop)"
proof -
  have u: "useSession replicated"
    by (simp add: useSession_def replicated_def)
  have "fst (SaleServices_create replicated namedBuyer (saleOf 4 []) 7 shop) =
      Inl (CustomError 400 ''Sale create failed: buyerName is required'')"
    by (simp add: sale_run shop_def saleOf_def rose_def tulip_def namedBuyer_def replicated_def
        split: prod.splits)
  then obtain d1 where s: "SaleServices_create replicated namedBuyer (saleOf 4 []) 7 shop =
      (Inl (CustomError 400 ''Sale create failed: buyerName is required''), d1)"
    by (metis prod.collapse)
  have "fst (ProductServices_create replicated strictSchemas (flower 5 0) 7 shop) =
      Inl (CustomError 400 ''Product create failed: totalPrice is not a number'')"
    by (simp add: product_run flower_prepared shop_def strictSchemas_def noPayloadCheck_def
        numericTotal_def replicated_def)
  then obtain d2 where p: "ProductServices_create replicated strictSchemas (flower 5 0) 7 shop =
      (Inl (CustomError 400 ''Product create failed: totalPrice is not a number''), d2)"
    by (metis prod.collapse)
  from create_atomic_with_session [OF u, of namedBuyer "saleOf 4 []" 7 shop strictSchemas "flower 5 0"] s p
  have "d1 = shop" and "d2 = shop"
    by blast+
  with u s p show ?thesis by simp
qed

section \<open>Product creation\<close>

lemma findById_id: "findById idOf docs i = Some x \<Longrightarrow> idOf x = i"
  by (induction docs) (auto simp: findById_def split: if_splits)

lemma findById_in_set: "findById idOf docs i = Some x \<Longrightarrow> x \<in> set docs"
  by (induction docs) (auto simp: findById_def split: if_splits)

lemma findById_None: "findById idOf docs i = None \<longleftrightarrow> (\<forall>x\<in>set docs. idOf x \<noteq> i)"
  by (induction docs) (auto simp: findById_def)

lemma getKey_delete: "getKey (AList.delete key pl) k = (if k = key then Undefined else getKey pl k)"
  by (simp add: getKey_def delete_conv')

lemma getKey_update: "getKey (AList.update key v pl) k = (if k = key then v else getKey pl k)"
  by (simp add: getKey_def update_conv')

lemma getKey_clean_loop:
  "getKey (fold (\<lambda>key pl. if \<not> truthy (getKey pl key) then AList.delete key pl else pl) ks pl) k =
     (if k \<in> set ks \<and> \<not> truthy (getKey pl k) then Undefined else getKey pl k)"
proof (induction ks arbitrary: pl)
  case Nil
  show ?case by simp
next
  case (Cons key ks)
  show ?case
    by (cases "truthy (getKey pl key)") (auto simp: Cons.IH getKey_delete)
qed

lemma getKey_Undefined_if_absent: "k \<notin> fst ` set p \<Longrightarrow> getKey p k = Undefined"
proof -
  assume "k \<notin> fst ` set p"
  then have "map_of p k = None" by (simp add: map_of_eq_None_iff)
  then show ?thesis by (simp add: getKey_def)
qed

lemma getKey_cleanPayload:
  "getKey (cleanPayload p) k = (if truthy (getKey p k) then getKey p k else Undefined)"
proof (cases "k \<in> fst ` set p")
  case True
  then show ?thesis by (simp add: cleanPayload_def getKey_clean_loop)
next
  case False
  then show ?thesis by (simp add: cleanPayload_def getKey_clean_loop getKey_Undefined_if_absent)
qed



lemma getKey_preparePayload:
  "getKey (preparePayload p userId) k =
     (if k = ''user'' then ObjId userId
      else if truthy (getKey p k) then getKey p k else Undefined)"
  by (simp add: preparePayload_def getKey_update getKey_cleanPayload)

lemma ProductServices_create_Inr:
  assumes "ProductServices_create conn sch p userId d = (Inr result, d')"
  shows "\<exists>i seller product pur.
           getKey (preparePayload p userId) ''seller'' = ObjId i \<and>
           findById se_id (sellers d) i = Some seller \<and>
           product = (productOfPayload (preparePayload p userId))\<lparr>p_id := nextId d\<rparr> \<and>
           pur = \<lparr>pu_id = Suc (nextId d), pu_user = userId, pu_seller = p_seller product,
                  pu_product = p_id product, pu_sellerName = Some (se_name seller),
                  pu_productName = p_name product, pu_quantity = p_stock product,
                  pu_unitPrice = p_price product,
                  pu_totalPrice = jsTimes (p_stock product) (p_price product)\<rparr> \<and>
           result = [product] \<and>
           d' = d\<lparr>products := products d @ [product], purchases := purchases d @ [pur],
                  nextId := Suc (Suc (nextId d))\<rparr>"
  using assms
  by (auto simp: ProductServices_create_def Let_def dest!: ProductServices_create_try_Inr
      split: sum.splits prod.splits)


lemma ProductServices_create_no_seller:
  assumes "\<forall>seller\<in>set (sellers d). getKey p ''seller'' \<noteq> ObjId (se_id seller)"
  shows "\<exists>e. ProductServices_create conn sch p userId d = (Inl e, d) \<and> statusCode e = 400"
proof -
  let ?m = "if useSession conn then startTransaction \<lparr>stored = d, working = None\<rparr>
      else \<lparr>stored = d, working = None\<rparr>"
  have m: "sellers (viewOf False ?m) = sellers d" "stored (abortTransaction ?m) = d" "stored ?m = d"
    by (simp_all add: session_defs)
  have "\<exists>msg. ProductServices_create_try (useSession conn) sch (preparePayload p userId) userId
      \<lparr>stored = d, working = None\<rparr> = Inl (msg, ?m)"
  proof (cases "getKey (preparePayload p userId) ''seller''")
    case (ObjId i)
    then have "getKey p ''seller'' = ObjId i"
      by (simp add: getKey_preparePayload split: if_splits)
    with assms have "findById se_id (sellers d) i = None"
      by (auto simp: findById_None)
    with ObjId show ?thesis
      unfolding ProductServices_create_try_def Let_def m by (simp add: Seller_findById_def)
  qed (simp_all add: ProductServices_create_try_def Let_def m Seller_findById_def)
  then obtain msg where "ProductServices_create_try (useSession conn) sch (preparePayload p userId)
      userId \<lparr>stored = d, working = None\<rparr> = Inl (msg, ?m)"
    by blast
  then have "ProductServices_create conn sch p userId d =
      (Inl (CustomError 400 (''Product create failed: '' @ messageOr msg)),
       stored (if useSession conn then abortTransaction ?m else ?m))"
    by (simp add: ProductServices_create_def Let_def)
  moreover have "stored (if useSession conn then abortTransaction ?m else ?m) = d"
    using m by (cases "useSession conn") simp_all
  ultimately show ?thesis
    by simp
qed


text \<open>
  Claim C4. A successful \<open>ProductServices_create\<close> appends one product and one
  purchase; the purchase carries the \<^verbatim>\<open>_id\<close> of the new product and its seller, who
  is a seller of the store, its quantity is the product's stock, its unit price the
  product's price, and its total price is the stock times the price when the product
  has both, and no number otherwise. When no seller of the store is referenced by the
  payload, the call fails with a 400 error and the store is unchanged.
\<close>

theorem product_create_records_purchase:
  "(\<forall>result d'. ProductServices_create conn sch p userId d = (Inr result, d') \<longrightarrow>
      (\<exists>product pur seller.
         result = [product] \<and> products d' = products d @ [product] \<and>
         purchases d' = purchases d @ [pur] \<and>
         seller \<in> set (sellers d) \<and> p_seller product = Some (se_id seller) \<and>
         pu_product pur = p_id product \<and> pu_seller pur = p_seller product \<and>
         pu_user pur = userId \<and> pu_quantity pur = p_stock product \<and>
         pu_unitPrice pur = p_price product \<and>
         (\<forall>stock price. p_stock product = Some stock \<longrightarrow> p_price product = Some price \<longrightarrow>
            pu_totalPrice pur = Some (stock * price)) \<and>
         (p_stock product = None \<or> p_price product = None \<longrightarrow> pu_totalPrice pur = None)))
   \<and> ((\<forall>seller\<in>set (sellers d). getKey p ''seller'' \<noteq> ObjId (se_id seller)) \<longrightarrow>
        (\<exists>e. ProductServices_create conn sch p userId d = (Inl e, d) \<and> statusCode e = 400))"
proof (intro conjI allI impI)
  fix result d'
  assume "ProductServices_create conn sch p userId d = (Inr result, d')"
  from ProductServices_create_Inr [OF this] obtain i seller product pur where
    key: "getKey (preparePayload p userId) ''seller'' = ObjId i"
    and seller: "findById se_id (sellers d) i = Some seller"
    and product: "product = (productOfPayload (preparePayload p userId))\<lparr>p_id := nextId d\<rparr>"
    and pur: "pur = \<lparr>pu_id = Suc (nextId d), pu_user = userId, pu_seller = p_seller product,
                  pu_product = p_id product, pu_sellerName = Some (se_name seller),
                  pu_productName = p_name product, pu_quantity = p_stock product,
                  pu_unitPrice = p_price product,
                  pu_totalPrice = jsTimes (p_stock product) (p_price product)\<rparr>"
    and res: "result = [product]"
    and d': "d' = d\<lparr>products := products d @ [product], purchases := purchases d @ [pur],
                  nextId := Suc (Suc (nextId d))\<rparr>"
    by blast
  have "seller \<in> set (sellers d)"
    using seller by (rule findById_in_set)
  moreover have "se_id seller = i"
    using seller by (rule findById_id)
  moreover have "p_seller product = Some i"
    by (simp add: product productOfPayload_def getId_def key)
  moreover have "products d' = products d @ [product]" "purchases d' = purchases d @ [pur]"
    by (simp_all add: d')
  moreover have "pu_product pur = p_id product" "pu_seller pur = p_seller product"
    "pu_user pur = userId" "pu_quantity pur = p_stock product"
    "pu_unitPrice pur = p_price product"
    by (simp_all add: pur)
  moreover have "\<forall>stock price. p_stock product = Some stock \<longrightarrow> p_price product = Some price \<longrightarrow>
      pu_totalPrice pur = Some (stock * price)"
    "p_stock product = None \<or> p_price product = None \<longrightarrow> pu_totalPrice pur = None"
    by (auto simp: pur jsTimes_def split: option.splits)
  ultimately show "\<exists>product pur seller.
         result = [product] \<and> products d' = products d @ [product] \<and>
         purchases d' = purchases d @ [pur] \<and>
         seller \<in> set (sellers d) \<and> p_seller product = Some (se_id seller) \<and>
         pu_product pur = p_id product \<and> pu_seller pur = p_seller product \<and>
         pu_user pur = userId \<and> pu_quantity pur = p_stock product \<and>
         pu_unitPrice pur = p_price product \<and>
         (\<forall>stock price. p_stock product = Some stock \<longrightarrow> p_price product = Some price \<longrightarrow>
            pu_totalPrice pur = Some (stock * price)) \<and>
         (p_stock product = None \<or> p_price product = None \<longrightarrow> pu_totalPrice pur = None)"
    using res by (intro exI [of _ product] exI [of _ pur] exI [of _ seller]) simp
next
  assume "\<forall>seller\<in>set (sellers d). getKey p ''seller'' \<noteq> ObjId (se_id seller)"
  then show "\<exists>e. ProductServices_create conn sch p userId d = (Inl e, d) \<and> statusCode e = 400"
    by (rule ProductServices_create_no_seller)
qed

theorem product_create_records_purchase_witness:
  "(\<exists>result d'. ProductServices_create replicated strictSchemas (flower 5 8) 7 shop = (Inr result, d') \<and>
      (\<exists>product pur seller.
         result = [product] \<and> products d' = products shop @ [product] \<and>
         purchases d' = purchases shop @ [pur] \<and>
         seller \<in> set (sellers shop) \<and> p_seller product = Some (se_id seller) \<and>
         pu_product pur = p_id product \<and> pu_seller pur = p_seller product \<and>
         pu_user pur = 7 \<and> pu_quantity pur = p_stock product \<and>
         pu_unitPrice pur = p_price product \<and>
         (\<forall>stock price. p_stock product = Some stock \<longrightarrow> p_price product = Some price \<longrightarrow>
            pu_totalPrice pur = Some (stock * price)) \<and>
         (p_stock product = None \<or> p_price product = None \<longrightarrow> pu_totalPrice pur = None) \<and>
         p_stock product = Some 8 \<and> p_price product = Some 5 \<and> pu_totalPrice pur = Some 40))
   \<and> getKey (AList.update ''seller'' (ObjId 9) (flower 5 8)) ''seller'' = ObjId 9
   \<and> map se_id (sellers shop) = [3]
   \<and> (\<exists>e. ProductServices_create replicated strictSchemas
              (AList.update ''seller'' (ObjId 9) (flower 5 8)) 7 shop = (Inl e, shop) \<and>
            statusCode e = 400)"
proof -
  let ?lily = "\<lparr>p_id = 20, p_name = Some ''Lily'', p_price = Some 5, p_stock = Some 8,
      p_category = None, p_brand = None, p_seller = Some 3, p_user = Some 7\<rparr>"
  have prep: "preparePayload (flower 5 8) 7 =
      [(''name'', Str ''Lily''), (''price'', Num 5), (''stock'', Num 8), (''seller'', ObjId 3),
       (''user'', ObjId 7)]"
    by (simp add: preparePayload_def cleanPayload_def flower_def getKey_def)
  have "\<exists>d'. ProductServices_create replicated strictSchemas (flower 5 8) 7 shop = (Inr [?lily], d')"
    by (simp add: product_run prep shop_def strictSchemas_def noPayloadCheck_def
        numericTotal_def replicated_def)
  then obtain d' where
    r: "ProductServices_create replicated strictSchemas (flower 5 8) 7 shop = (Inr [?lily], d')"
    by blast
  have n: "\<forall>seller\<in>set (sellers shop).
      getKey (AList.update ''seller'' (ObjId 9) (flower 5 8)) ''seller'' \<noteq> ObjId (se_id seller)"
    by (simp add: shop_def getKey_update)
  note inst = product_create_records_purchase [of replicated strictSchemas _ 7 shop]
  note ex = conjunct1 [OF inst [of "flower 5 8"], rule_format, OF r]
  from ex obtain product where "\<exists>pur seller.
         [?lily] = [product] \<and> products d' = products shop @ [product] \<and>
         purchases d' = purchases shop @ [pur] \<and>
         seller \<in> set (sellers shop) \<and> p_seller product = Some (se_id seller) \<and>
         pu_product pur = p_id product \<and> pu_seller pur = p_seller product \<and>
         pu_user pur = 7 \<and> pu_quantity pur = p_stock product \<and>
         pu_unitPrice pur = p_price product \<and>
         (\<forall>stock price. p_stock product = Some stock \<longrightarrow> p_price product = Some price \<longrightarrow>
            pu_totalPrice pur = Some (stock * price)) \<and>
         (p_stock product = None \<or> p_price product = None \<longrightarrow> pu_totalPrice pur = None)" ..
  then obtain pur where "\<exists>seller.
         [?lily] = [product] \<and> products d' = products shop @ [product] \<and>
         purchases d' = purchases shop @ [pur] \<and>
         seller \<in> set (sellers shop) \<and> p_seller product = Some (se_id seller) \<and>
         pu_product pur = p_id product \<and> pu_seller pur = p_seller product \<and>
         pu_user pur = 7 \<and> pu_quantity pur = p_stock product \<and>
         pu_unitPrice pur = p_price product \<and>
         (\<forall>stock price. p_stock product = Some stock \<longrightarrow> p_price product = Some price \<longrightarrow>
            pu_totalPrice pur = Some (stock * price)) \<and>
         (p_stock product = None \<or> p_price product = None \<longrightarrow> pu_totalPrice pur = None)" ..
  then obtain seller where b:
        "[?lily] = [product] \<and> products d' = products shop @ [product] \<and>
         purchases d' = purchases shop @ [pur] \<and>
         seller \<in> set (sellers shop) \<and> p_seller product = Some (se_id seller) \<and>
         pu_product pur = p_id product \<and> pu_seller pur = p_seller product \<and>
         pu_user pur = 7 \<and> pu_quantity pur = p_stock product \<and>
         pu_unitPrice pur = p_price product \<and>
         (\<forall>stock price. p_stock product = Some stock \<longrightarrow> p_price product = Some price \<longrightarrow>
            pu_totalPrice pur = Some (stock * price)) \<and>
         (p_stock product = None \<or> p_price product = None \<longrightarrow> pu_totalPrice pur = None)" ..
  then have lily: "product = ?lily"
    by simp
  from b have "\<forall>stock price. p_stock product = Some stock \<longrightarrow> p_price product = Some price \<longrightarrow>
      pu_totalPrice pur = Some (stock * price)"
    by (elim conjE)
  then have "pu_totalPrice pur = Some (8 * 5)"
    unfolding lily by simp
  with b lily have "[?lily] = [product] \<and> products d' = products shop @ [product] \<and>
         purchases d' = purchases shop @ [pur] \<and>
         seller \<in> set (sellers shop) \<and> p_seller product = Some (se_id seller) \<and>
         pu_product pur = p_id product \<and> pu_seller pur = p_seller product \<and>
         pu_user pur = 7 \<and> pu_quantity pur = p_stock product \<and>
         pu_unitPrice pur = p_price product \<and>
         (\<forall>stock price. p_stock product = Some stock \<longrightarrow> p_price product = Some price \<longrightarrow>
            pu_totalPrice pur = Some (stock * price)) \<and>
         (p_stock product = None \<or> p_price product = None \<longrightarrow> pu_totalPrice pur = None) \<and>
         p_stock product = Some 8 \<and> p_price product = Some 5 \<and> pu_totalPrice pur = Some 40"
    by simp
  then have "\<exists>product pur seller.
         [?lily] = [product] \<and> products d' = products shop @ [product] \<and>
         purchases d' = purchases shop @ [pur] \<and>
         seller \<in> set (sellers shop) \<and> p_seller product = Some (se_id seller) \<and>
         pu_product pur = p_id product \<and> pu_seller pur = p_seller product \<and>
         pu_user pur = 7 \<and> pu_quantity pur = p_stock product \<and>
         pu_unitPrice pur = p_price product \<and>
         (\<forall>stock price. p_stock product = Some stock \<longrightarrow> p_price product = Some price \<longrightarrow>
            pu_totalPrice pur = Some (stock * price)) \<and>
         (p_stock product = None \<or> p_price product = None \<longrightarrow> pu_totalPrice pur = None) \<and>
         p_stock product = Some 8 \<and> p_price product = Some 5 \<and> pu_totalPrice pur = Some 40"
    by (intro exI [of _ product] exI [of _ pur] exI [of _ seller])
  with r have first: "\<exists>result d'.
      ProductServices_create replicated strictSchemas (flower 5 8) 7 shop = (Inr result, d') \<and>
      (\<exists>product pur seller.
         result = [product] \<and> products d' = products shop @ [product] \<and>
         purchases d' = purchases shop @ [pur] \<and>
         seller \<in> set (sellers shop) \<and> p_seller product = Some (se_id seller) \<and>
         pu_product pur = p_id product \<and> pu_seller pur = p_seller product \<and>
         pu_user pur = 7 \<and> pu_quantity pur = p_stock product \<and>
         pu_unitPrice pur = p_price product \<and>
         (\<forall>stock price. p_stock product = Some stock \<longrightarrow> p_price product = Some price \<longrightarrow>
            pu_totalPrice pur = Some (stock * price)) \<and>
         (p_stock product = None \<or> p_price product = None \<longrightarrow> pu_totalPrice pur = None) \<and>
         p_stock product = Some 8 \<and> p_price product = Some 5 \<and> pu_totalPrice pur = Some 40)"
    by (intro exI [of _ "[?lily]"] exI [of _ d'] conjI)
  note failing = mp [OF conjunct2 [OF inst [of "AList.update ''seller'' (ObjId 9) (flower 5 8)"]] n]
  have "getKey (AList.update ''seller'' (ObjId 9) (flower 5 8)) ''seller'' = ObjId 9"
    "map se_id (sellers shop) = [3]"
    by (simp_all add: shop_def getKey_update)
  with first failing show ?thesis
    by (intro conjI)
qed



section \<open>Stock intake and bulk deletion\<close>

text \<open>
  Claim C5 at a concrete call. The rose has a stock of 10 at a price of 5; adding 3 to
  its stock raises the stock to 13, and the purchase that is recorded has the quantity
  10 and the total price 50, those of the product as it was before the update: not the
  quantity 3 that was added, nor 15.
\<close>

theorem addToStock_records_previous_stock:
  "ProductServices_addToStock noPurchaseCheck 1 \<lparr>sp_seller = 3, sp_stock = 3\<rparr> 7 shop =
     (Inr rose,
      shop\<lparr>products := [rose\<lparr>p_stock := Some 13\<rparr>, tulip],
           purchases := [\<lparr>pu_id = 20, pu_user = 7, pu_seller = Some 3, pu_product = 1,
              pu_sellerName = Some ''Flora'', pu_productName = Some ''Rose'',
              pu_quantity = Some 10, pu_unitPrice = Some 5, pu_totalPrice = Some 50\<rparr>],
           nextId := 21\<rparr>)"
  by (simp add: ProductServices_addToStock_def ProductServices_addToStock_try_def
      findByIdAndUpdate_incStock_def findById_def shop_def rose_def tulip_def incStock_def
      Purchase_create_def noPurchaseCheck_def jsTimes_def session_defs Let_def)

text \<open>
  Claim C8. \<open>ProductServices_bulkDelete\<close> takes no user: it removes exactly the
  products whose \<^verbatim>\<open>_id\<close> is in the list and reports their number, so every product
  with a listed \<^verbatim>\<open>_id\<close> is gone whoever owns it, while \<open>ProductServices_read\<close>
  only returns products of the calling user.
\<close>

theorem bulkDelete_ignores_owner:
  "products (snd (ProductServices_bulkDelete ids d)) =
     filter (\<lambda>p. p_id p \<notin> set ids) (products d)
   \<and> fst (ProductServices_bulkDelete ids d) =
       length (filter (\<lambda>p. p_id p \<in> set ids) (products d))
   \<and> (\<forall>p\<in>set (products d). p_id p \<in> set ids \<longrightarrow>
         p \<notin> set (products (snd (ProductServices_bulkDelete ids d))))
   \<and> (\<forall>p\<in>set (products d). p_id p \<notin> set ids \<longrightarrow>
         p \<in> set (products (snd (ProductServices_bulkDelete ids d))))
   \<and> (\<forall>p. ProductServices_read i userId d = Some p \<longrightarrow> p_user p = Some userId)"
proof (intro conjI allI impI)
  fix p
  assume "ProductServices_read i userId d = Some p"
  then show "p_user p = Some userId"
    unfolding ProductServices_read_def by (auto dest: find_Some_iff [THEN iffD1])
qed (simp_all add: ProductServices_bulkDelete_def)

theorem bulkDelete_ignores_owner_witness:
  "tulip \<in> set (products shop) \<and> p_id tulip \<in> set [2] \<and> p_user tulip = Some 8 \<and>
   tulip \<notin> set (products (snd (ProductServices_bulkDelete [2] shop))) \<and>
   rose \<in> set (products shop) \<and> p_id rose \<notin> set [2] \<and>
   rose \<in> set (products (snd (ProductServices_bulkDelete [2] shop))) \<and>
   fst (ProductServices_bulkDelete [2] shop) = 1 \<and>
   ProductServices_read 2 7 shop = None \<and>
   ProductServices_read 2 8 shop = Some tulip"
proof -
  have a: "tulip \<in> set (products shop)" "p_id tulip \<in> set [2]" "p_user tulip = Some 8"
    "rose \<in> set (products shop)" "p_id rose \<notin> set [2]"
    by (simp_all add: shop_def tulip_def rose_def)
  have b: "ProductServices_read 2 7 shop = None" "ProductServices_read 2 8 shop = Some tulip"
    by (simp_all add: ProductServices_read_def shop_def tulip_def rose_def)
  have c: "length (filter (\<lambda>p. p_id p \<in> set [2]) (products shop)) = 1"
    by (simp add: shop_def tulip_def rose_def)
  from bulkDelete_ignores_owner [of "[2]" shop 2 8] a b c
  show ?thesis by simp
qed

section \<open>Grouping\<close>

lemma group_stage_snoc:
  "group_stage key val acc (docs @ [x]) = upsert acc (key x) (val x) (group_stage key val acc docs)"
  by (simp add: group_stage_def)

lemma group_stage_Nil: "group_stage key val acc [] = []"
  by (simp add: group_stage_def)










lemma group_count:
  "group_stage (\<lambda>s. ()) (\<lambda>s. 1) (+) docs = (if docs = [] then [] else [((), length docs)])"
  by (induction docs rule: rev_induct) (auto simp: group_stage_Nil group_stage_snoc)

section \<open>Rollups\<close>








section \<open>Reading sales\<close>

lemma length_filter_conj_le: "length (filter (\<lambda>x. P x \<and> Q x) xs) \<le> length (filter P xs)"
  by (induction xs) auto

lemma length_filter_conj_less:
  "\<exists>x\<in>set xs. P x \<and> \<not> Q x \<Longrightarrow> length (filter (\<lambda>x. P x \<and> Q x) xs) < length (filter P xs)"
proof (induction xs)
  case Nil
  then show ?case by simp
next
  case (Cons x xs)
  show ?case
  proof (cases "P x \<and> \<not> Q x")
    case True
    with length_filter_conj_le [of P Q xs] show ?thesis
      by simp
  next
    case False
    with Cons.prems have "\<exists>x\<in>set xs. P x \<and> \<not> Q x" by auto
    with Cons.IH show ?thesis by auto
  qed
qed

lemma readAll_totalCount:
  "snd (SaleServices_readAll regex pipeline q userId d) =
     (if filter (\<lambda>s. s_user s = userId) (sales d) = [] then []
      else [\<lparr>c_total = length (filter (\<lambda>s. s_user s = userId) (sales d))\<rparr>])"
  unfolding SaleServices_readAll_def Let_def group_count by simp

text \<open>
  Claim C10. The \<open>totalCount\<close> of \<open>SaleServices_readAll\<close> holds the number of the
  user's sales: it is fixed by the user and the sales alone, whatever the query. The
  \<open>data\<close> is the page of the user's sales whose product name or buyer name the search
  pattern matches with the option \<open>i\<close>. So whenever a sale of the user is not
  matched, the count exceeds the number of matching sales.
\<close>

theorem readAll_totalCount_ignores_search:
  "snd (SaleServices_readAll regex pipeline q userId d) =
     (if filter (\<lambda>s. s_user s = userId) (sales d) = [] then []
      else [\<lparr>c_total = length (filter (\<lambda>s. s_user s = userId) (sales d))\<rparr>])
   \<and> sum_list (map c_total (snd (SaleServices_readAll regex pipeline q userId d))) =
       length (filter (\<lambda>s. s_user s = userId) (sales d))
   \<and> fst (SaleServices_readAll regex pipeline q userId d) =
       pipeline q
         (filter (\<lambda>s. s_user s = userId \<and>
                      (regex (case search q of None \<Rightarrow> [] | Some t \<Rightarrow> t) ''i'' (s_productName s) \<or>
                       regex (case search q of None \<Rightarrow> [] | Some t \<Rightarrow> t) ''i'' (s_buyerName s)))
            (sales d))
   \<and> ((\<exists>s\<in>set (sales d). s_user s = userId \<and>
          \<not> (regex (case search q of None \<Rightarrow> [] | Some t \<Rightarrow> t) ''i'' (s_productName s) \<or>
             regex (case search q of None \<Rightarrow> [] | Some t \<Rightarrow> t) ''i'' (s_buyerName s))) \<longrightarrow>
        length (filter (\<lambda>s. s_user s = userId \<and>
                      (regex (case search q of None \<Rightarrow> [] | Some t \<Rightarrow> t) ''i'' (s_productName s) \<or>
                       regex (case search q of None \<Rightarrow> [] | Some t \<Rightarrow> t) ''i'' (s_buyerName s)))
            (sales d))
        < sum_list (map c_total (snd (SaleServices_readAll regex pipeline q userId d))))"
proof (intro conjI impI)
  show count: "sum_list (map c_total (snd (SaleServices_readAll regex pipeline q userId d))) =
       length (filter (\<lambda>s. s_user s = userId) (sales d))"
    by (simp add: readAll_totalCount)
  have srch: "(case search q of None \<Rightarrow> [] | Some s \<Rightarrow> if s \<noteq> [] then s else []) =
      (case search q of None \<Rightarrow> [] | Some t \<Rightarrow> t)"
    by (simp split: option.splits)
  show "fst (SaleServices_readAll regex pipeline q userId d) =
       pipeline q
         (filter (\<lambda>s. s_user s = userId \<and>
                      (regex (case search q of None \<Rightarrow> [] | Some t \<Rightarrow> t) ''i'' (s_productName s) \<or>
                       regex (case search q of None \<Rightarrow> [] | Some t \<Rightarrow> t) ''i'' (s_buyerName s)))
            (sales d))"
    unfolding SaleServices_readAll_def srch by (simp add: Let_def)
  assume "\<exists>s\<in>set (sales d). s_user s = userId \<and>
          \<not> (regex (case search q of None \<Rightarrow> [] | Some t \<Rightarrow> t) ''i'' (s_productName s) \<or>
             regex (case search q of None \<Rightarrow> [] | Some t \<Rightarrow> t) ''i'' (s_buyerName s))"
  then show "length (filter (\<lambda>s. s_user s = userId \<and>
                      (regex (case search q of None \<Rightarrow> [] | Some t \<Rightarrow> t) ''i'' (s_productName s) \<or>
                       regex (case search q of None \<Rightarrow> [] | Some t \<Rightarrow> t) ''i'' (s_buyerName s)))
            (sales d))
        < sum_list (map c_total (snd (SaleServices_readAll regex pipeline q userId d)))"
    unfolding count by (rule length_filter_conj_less)
qed (rule readAll_totalCount)

theorem readAll_totalCount_ignores_search_witness:
  "SaleServices_readAll literalMatch firstPage \<lparr>search = Some ''RO''\<rparr> 7 ledger =
     ([sold 7 ''Rose'' ''Ann'' 2 5 (Some 400), sold 7 ''Rose'' ''Dee'' 3 5 (Some 5)],
      [\<lparr>c_total = 4\<rparr>])
   \<and> snd (SaleServices_readAll literalMatch firstPage \<lparr>search = None\<rparr> 7 ledger) = [\<lparr>c_total = 4\<rparr>]
   \<and> (\<exists>s\<in>set (sales ledger). s_user s = 7 \<and>
          \<not> (literalMatch ''RO'' ''i'' (s_productName s) \<or> literalMatch ''RO'' ''i'' (s_buyerName s)))
   \<and> length (filter (\<lambda>s. s_user s = 7 \<and>
                (literalMatch ''RO'' ''i'' (s_productName s) \<or> literalMatch ''RO'' ''i'' (s_buyerName s)))
            (sales ledger))
      < sum_list (map c_total
          (snd (SaleServices_readAll literalMatch firstPage \<lparr>search = Some ''RO''\<rparr> 7 ledger)))"
proof -
  have a: "SaleServices_readAll literalMatch firstPage \<lparr>search = Some ''RO''\<rparr> 7 ledger =
     ([sold 7 ''Rose'' ''Ann'' 2 5 (Some 400), sold 7 ''Rose'' ''Dee'' 3 5 (Some 5)],
      [\<lparr>c_total = 4\<rparr>])"
    by code_simp
  have b: "snd (SaleServices_readAll literalMatch firstPage \<lparr>search = None\<rparr> 7 ledger) = [\<lparr>c_total = 4\<rparr>]"
    by code_simp
  have "s_user (sold 7 ''Tulip'' ''Bob'' 1 4 (Some 3)) = 7 \<and>
      \<not> (literalMatch ''RO'' ''i'' (s_productName (sold 7 ''Tulip'' ''Bob'' 1 4 (Some 3))) \<or>
         literalMatch ''RO'' ''i'' (s_buyerName (sold 7 ''Tulip'' ''Bob'' 1 4 (Some 3))))"
    by code_simp
  moreover have "sold 7 ''Tulip'' ''Bob'' 1 4 (Some 3) \<in> set (sales ledger)"
    by (simp add: ledger_def)
  ultimately have c: "\<exists>s\<in>set (sales ledger). s_user s = 7 \<and>
          \<not> (literalMatch ''RO'' ''i'' (s_productName s) \<or> literalMatch ''RO'' ''i'' (s_buyerName s))"
    by blast
  let ?q = "\<lparr>search = Some ''RO''\<rparr>"
  have t: "(case search ?q of None \<Rightarrow> [] | Some t \<Rightarrow> t) = ''RO''"
    by simp
  from readAll_totalCount_ignores_search [of literalMatch firstPage ?q 7 ledger]
  have "(\<exists>s\<in>set (sales ledger). s_user s = 7 \<and>
          \<not> (literalMatch (case search ?q of None \<Rightarrow> [] | Some t \<Rightarrow> t) ''i'' (s_productName s) \<or>
             literalMatch (case search ?q of None \<Rightarrow> [] | Some t \<Rightarrow> t) ''i'' (s_buyerName s))) \<longrightarrow>
        length (filter (\<lambda>s. s_user s = 7 \<and>
                      (literalMatch (case search ?q of None \<Rightarrow> [] | Some t \<Rightarrow> t) ''i'' (s_productName s) \<or>
                       literalMatch (case search ?q of None \<Rightarrow> [] | Some t \<Rightarrow> t) ''i'' (s_buyerName s)))
            (sales ledger))
        < sum_list (map c_total (snd (SaleServices_readAll literalMatch firstPage ?q 7 ledger)))"
    by (elim conjE)
  with c have "length (filter (\<lambda>s. s_user s = 7 \<and>
                (literalMatch ''RO'' ''i'' (s_productName s) \<or> literalMatch ''RO'' ''i'' (s_buyerName s)))
            (sales ledger))
      < sum_list (map c_total
          (snd (SaleServices_readAll literalMatch firstPage \<lparr>search = Some ''RO''\<rparr> 7 ledger)))"
    unfolding t by (rule mp [rotated])
  with a b c show ?thesis by blast
qed

end
